theory Spec2Isabelle
  imports Main "HOL-Library.AList"
begin

section \<open>The progression ledger of mirror-app (src/lib/game.ts)\<close>

text \<open>
  A shallow embedding of the XP ledger, the level calculator, the statistics
  reconciliation and the badge engine of \<^verbatim>\<open>src/src/lib/game.ts\<close>.

  Conventions of the embedding.
  \<^item> XP amounts are \<open>int\<close> (the code accepts any number and rejects the
    non-positive ones); levels, counters and streaks are \<open>nat\<close>.
  \<^item> A Firestore document is a record whose fields are options: \<open>None\<close> is a
    field that is absent (or null). The JavaScript idiom \<^verbatim>\<open>x || 0\<close> reads
    such a field with \<open>or_zero\<close>.
  \<^item> A merge write (\<^verbatim>\<open>setDoc(ref, data, {merge: true})\<close>) is a record update
    of exactly the fields of \<^verbatim>\<open>data\<close>.
  \<^item> The clock and the JavaScript runtime are a parameter (\<open>js_env\<close>): the
    current week key, the current date key, the date parser and the server time.
  \<^item> \<^verbatim>\<open>runTransaction\<close> runs its body atomically; the embedding is the
    body run once on the store, and it records the reads and writes it issues.
\<close>

subsection \<open>Level calculator\<close>

definition LEVEL_THRESHOLDS :: "int list" where
  "LEVEL_THRESHOLDS = [0, 50, 200, 600, 1500, 3500, 7500]"

definition LEVEL_NAMES :: "string list" where
  "LEVEL_NAMES = [''levels.beginner'', ''levels.explorer'', ''levels.seeker'',
     ''levels.adept'', ''levels.navigator'', ''levels.guide'', ''levels.sage'']"

text \<open>
  The body of the \<^verbatim>\<open>for\<close> loop of \<^verbatim>\<open>computeLevel\<close>: the list argument is
  the part of the table from index \<open>i\<close> on, \<open>level\<close> is the loop variable.
\<close>

fun computeLevel_loop :: "int list \<Rightarrow> int \<Rightarrow> nat \<Rightarrow> nat \<Rightarrow> nat" where
  "computeLevel_loop [] allTimeXP i level = level"
| "computeLevel_loop (t # ts) allTimeXP i level =
     computeLevel_loop ts allTimeXP (i + 1) (if allTimeXP \<ge> t then i + 1 else level)"

definition computeLevel :: "int \<Rightarrow> nat" where
  "computeLevel allTimeXP =
     min (computeLevel_loop LEVEL_THRESHOLDS allTimeXP 0 1) (length LEVEL_THRESHOLDS)"

definition computeLevelName :: "nat \<Rightarrow> string" where
  "computeLevelName level =
     (let i = min (max level 1) (length LEVEL_NAMES) - 1 in
      if i < length LEVEL_NAMES \<and> LEVEL_NAMES ! i \<noteq> [] then LEVEL_NAMES ! i
      else ''levels.explorer'')"

subsection \<open>Documents and the store\<close>

record stats =
  allTimeXP :: "int option"
  weeklyXP :: "int option"
  weeklyKey :: "string option"
  level :: "nat option"
  levelName :: "string option"
  activeBadgeId :: "string option"
  momentsCount :: "nat option"
  reflectionsCount :: "nat option"
  streakDays :: "nat option"
  bestStreakDays :: "nat option"
  journeyDay :: "nat option"
  journeyWeekKey :: "string option"
  lastMomentAt :: "int option"
  lastReflectionAt :: "int option"
  depthMoments :: "nat option"
  emotionCounts :: "(string \<times> nat) list option"
  patternsViewed :: "nat option"

text \<open>The document \<^verbatim>\<open>{}\<close>: what the code reads when the aggregate does not exist.\<close>

definition empty_stats :: stats where
  "empty_stats = \<lparr> allTimeXP = None, weeklyXP = None, weeklyKey = None, level = None,
     levelName = None, activeBadgeId = None, momentsCount = None, reflectionsCount = None,
     streakDays = None, bestStreakDays = None, journeyDay = None, journeyWeekKey = None,
     lastMomentAt = None, lastReflectionAt = None, depthMoments = None,
     emotionCounts = None, patternsViewed = None \<rparr>"

record xp_event =
  xp_amount :: int
  xp_createdAt :: int
  xp_weekKey :: string
  xp_metadata :: "(string \<times> string) list"

text \<open>
  A moment and a daily reflection as the engine reads them. The code only tests
  \<^verbatim>\<open>tags\<close>, \<^verbatim>\<open>note\<close>, \<^verbatim>\<open>emotion\<close> and \<^verbatim>\<open>dateKey\<close> for truthiness, so a
  missing field and an empty one are the same value here. \<open>createdAt\<close> and
  \<open>completedAt\<close> are milliseconds since the epoch.
\<close>

record moment =
  createdAt :: "int option"
  tags :: "string list"
  moment_note :: string
  emotion :: string

record reflection =
  refl_id :: string
  dateKey :: string
  completed :: bool
  completedAt :: "int option"

datatype BadgeCategory = getting_started | consistency | depth | emotion_cat | insight

datatype BadgeCriteriaType =
  moments_logged | reflections_completed | tags_added | emotion_logged
  | patterns_viewed | streak_days

text \<open>
  A badge definition without its display fields (name, icon, description), which
  the engine never reads.
\<close>

record BadgeDefinition =
  badge_id :: string
  category :: BadgeCategory
  criteriaType :: BadgeCriteriaType
  threshold :: nat
  emotionType :: "string option"
  xpReward :: nat

record badge_record =
  earned :: bool
  earnedAt :: "int option"
  progressCurrent :: nat
  progressTarget :: nat
  progressText :: string
  badge_category :: BadgeCategory

text \<open>The collections under \<^verbatim>\<open>users/{uid}\<close>, each indexed by the user id first.\<close>

record db =
  stats_main :: "string \<Rightarrow> stats option"
  xp_events :: "string \<Rightarrow> string \<Rightarrow> xp_event option"
  moments :: "string \<Rightarrow> moment list"
  daily_reflections :: "string \<Rightarrow> reflection list"
  badges :: "string \<Rightarrow> string \<Rightarrow> badge_record option"

text \<open>
  The runtime: \<open>currentWeekKey\<close> is \<^verbatim>\<open>getCurrentWeekKey()\<close>, \<open>currentDateKey\<close> is
  \<^verbatim>\<open>getCurrentDateKey()\<close>, \<open>sevenDaysAgo\<close> is the time six days before now,
  \<open>serverTime\<close> resolves \<^verbatim>\<open>serverTimestamp()\<close>, and \<open>dateParse s\<close> is
  \<^verbatim>\<open>new Date(s).getTime()\<close>, with \<open>None\<close> for an invalid date.
\<close>

record js_env =
  currentWeekKey :: string
  currentDateKey :: string
  sevenDaysAgo :: int
  serverTime :: int
  dateParse :: "string \<Rightarrow> int option"

definition or_zero :: "'a::zero option \<Rightarrow> 'a" where
  "or_zero v = (case v of None \<Rightarrow> 0 | Some x \<Rightarrow> x)"

text \<open>\<^verbatim>\<open>snap.exists() ? snap.data() : {}\<close>, also the document a merge write starts from.\<close>

definition snapshot_data :: "stats option \<Rightarrow> stats" where
  "snapshot_data snap = (case snap of Some s \<Rightarrow> s | None \<Rightarrow> empty_stats)"

subsection \<open>ensureStatsDoc\<close>

definition initial_stats :: "string \<Rightarrow> stats" where
  "initial_stats weekKey = empty_stats \<lparr> allTimeXP := Some 0, weeklyXP := Some 0,
     weeklyKey := Some weekKey, level := Some 1, levelName := Some (computeLevelName 1),
     activeBadgeId := None, momentsCount := Some 0, reflectionsCount := Some 0,
     streakDays := Some 0, bestStreakDays := Some 0, journeyDay := Some 0,
     journeyWeekKey := Some weekKey \<rparr>"

definition ensureStatsDoc :: "js_env \<Rightarrow> string \<Rightarrow> db \<Rightarrow> db" where
  "ensureStatsDoc env uid d =
     (case stats_main d uid of
        Some snap \<Rightarrow> d
      | None \<Rightarrow> d \<lparr> stats_main := (stats_main d)(uid := Some (initial_stats (currentWeekKey env))) \<rparr>)"

subsection \<open>awardXpOnce\<close>

record award_result =
  awarded :: bool
  result_level :: "nat option"

datatype doc_ref = XpEventRef string string | StatsRef string

datatype tx_op = TxGet doc_ref | TxSet doc_ref

definition not_awarded :: award_result where
  "not_awarded = \<lparr> awarded = False, result_level = None \<rparr>"

text \<open>The callback of \<^verbatim>\<open>runTransaction\<close>, for a user id and an event id.\<close>

definition awardXpOnce_tx ::
  "js_env \<Rightarrow> string \<Rightarrow> string \<Rightarrow> int \<Rightarrow> (string \<times> string) list option \<Rightarrow> db
     \<Rightarrow> award_result \<times> db \<times> tx_op list" where
  "awardXpOnce_tx env uid eventId amount metadata d =
     (let weekKey = currentWeekKey env in
      case xp_events d uid eventId of
        Some xpSnap \<Rightarrow> (not_awarded, d, [TxGet (XpEventRef uid eventId)])
      | None \<Rightarrow>
          (let st = snapshot_data (stats_main d uid);
               weekly = (if weeklyKey st = Some weekKey then or_zero (weeklyXP st) else 0);
               allTime = or_zero (allTimeXP st);
               newAll = allTime + amount;
               newWeekly = weekly + amount;
               lvl = computeLevel newAll;
               lvlName = computeLevelName lvl;
               ev = \<lparr> xp_amount = amount, xp_createdAt = serverTime env,
                      xp_weekKey = weekKey,
                      xp_metadata = (case metadata of None \<Rightarrow> [] | Some m \<Rightarrow> m) \<rparr>;
               st' = st \<lparr> weeklyKey := Some weekKey, weeklyXP := Some newWeekly,
                      allTimeXP := Some newAll, level := Some lvl, levelName := Some lvlName \<rparr>
           in (\<lparr> awarded = True, result_level = Some lvl \<rparr>,
               d \<lparr> xp_events := (xp_events d)(uid := (xp_events d uid)(eventId := Some ev)),
                   stats_main := (stats_main d)(uid := Some st') \<rparr>,
               [TxGet (XpEventRef uid eventId), TxGet (StatsRef uid),
                TxSet (XpEventRef uid eventId), TxSet (StatsRef uid)])))"

text \<open>
  \<open>uid = None\<close> is a missing user id (\<^verbatim>\<open>undefined\<close> or \<^verbatim>\<open>null\<close>), which
  \<^verbatim>\<open>!uid\<close> rejects as it rejects the empty string.
\<close>

definition awardXpOnce ::
  "js_env \<Rightarrow> string option \<Rightarrow> string \<Rightarrow> int \<Rightarrow> (string \<times> string) list option \<Rightarrow> db
     \<Rightarrow> award_result \<times> db \<times> tx_op list" where
  "awardXpOnce env uid eventId amount metadata d =
     (case uid of
        None \<Rightarrow> (not_awarded, d, [])
      | Some u \<Rightarrow>
          if u = [] \<or> eventId = [] \<or> amount \<le> 0 then (not_awarded, d, [])
          else awardXpOnce_tx env u eventId amount metadata d)"

subsection \<open>reconcileStatsFromData\<close>

definition DAY_MS :: int where
  "DAY_MS = 86400000"

text \<open>
  \<^verbatim>\<open>if (t && (!latest || t > latest)) latest = t\<close>, for \<^verbatim>\<open>lastMomentAt\<close> and
  \<^verbatim>\<open>lastReflectionAt\<close>.
\<close>

definition later_of :: "int option \<Rightarrow> int option \<Rightarrow> int option" where
  "later_of t latest =
     (case t of
        None \<Rightarrow> latest
      | Some c \<Rightarrow> (case latest of None \<Rightarrow> Some c | Some l \<Rightarrow> if c > l then Some c else Some l))"

text \<open>\<^verbatim>\<open>emotionCounts[e] = (emotionCounts[e] || 0) + 1\<close>; the keys keep their insertion order.\<close>

definition count_emotion :: "string \<Rightarrow> (string \<times> nat) list \<Rightarrow> (string \<times> nat) list" where
  "count_emotion e counts = AList.update e (or_zero (map_of counts e) + 1) counts"

text \<open>\<^verbatim>\<open>(d.tags && d.tags.length) || d.note\<close>\<close>

definition has_depth :: "moment \<Rightarrow> bool" where
  "has_depth m = (0 < length (tags m) \<or> moment_note m \<noteq> [])"

text \<open>The callback of \<^verbatim>\<open>momentsSnap.forEach\<close>, on (lastMomentAt, depthMoments, emotionCounts).\<close>

fun moment_step ::
  "moment \<Rightarrow> int option \<times> nat \<times> (string \<times> nat) list \<Rightarrow> int option \<times> nat \<times> (string \<times> nat) list" where
  "moment_step m (lastMoment, depthCount, counts) =
     (later_of (createdAt m) lastMoment,
      (if has_depth m then depthCount + 1 else depthCount),
      (if emotion m \<noteq> [] then count_emotion (emotion m) counts else counts))"

text \<open>\<^verbatim>\<open>d.dateKey || docSnap.id\<close>\<close>

definition reflection_dateKey :: "reflection \<Rightarrow> string" where
  "reflection_dateKey r = (if dateKey r \<noteq> [] then dateKey r else refl_id r)"

text \<open>
  The callback of \<^verbatim>\<open>reflectionsSnap.forEach\<close>, on
  (reflectionsCount, reflectionDates, lastReflectionAt).
\<close>

fun reflection_step ::
  "reflection \<Rightarrow> nat \<times> string list \<times> int option \<Rightarrow> nat \<times> string list \<times> int option" where
  "reflection_step r (cnt, dates, lastReflection) =
     (if completed r
      then (cnt + 1, dates @ [reflection_dateKey r], later_of (completedAt r) lastReflection)
      else (cnt, dates, lastReflection))"

text \<open>
  \<^verbatim>\<open>reflectionDates.map(d => new Date(d)).filter(d => !isNaN(d.getTime()))
    .sort((a, b) => b.getTime() - a.getTime())\<close>: the times, latest first.
\<close>

definition sortedDates :: "(string \<Rightarrow> int option) \<Rightarrow> string list \<Rightarrow> int list" where
  "sortedDates parse reflectionDates =
     sort_key uminus (map the (filter (\<lambda>t. t \<noteq> None) (map parse reflectionDates)))"

text \<open>
  The callback of \<^verbatim>\<open>sortedDates.forEach\<close>, on (streak, bestStreak, prev). The
  quotient \<^verbatim>\<open>(prev.getTime() - date.getTime()) / 86400000\<close> is 1 exactly when the
  difference is \<open>DAY_MS\<close>, and above 1 exactly when the difference is above it.
\<close>

fun streak_step :: "int \<Rightarrow> nat \<times> nat \<times> int option \<Rightarrow> nat \<times> nat \<times> int option" where
  "streak_step date (streak, bestStreak, prev) =
     (let streak' =
        (case prev of
           None \<Rightarrow> 1
         | Some p \<Rightarrow>
             if p - date = DAY_MS then streak + 1
             else if p - date > DAY_MS then 1
             else streak)
      in (streak', max bestStreak streak', Some date))"

text \<open>The callback of the second \<^verbatim>\<open>momentsSnap.forEach\<close>: the UTC days of the recent moments.\<close>

definition journey_step :: "int \<Rightarrow> moment \<Rightarrow> int list \<Rightarrow> int list" where
  "journey_step since m days =
     (case createdAt m of
        None \<Rightarrow> days
      | Some c \<Rightarrow> if c \<ge> since then List.insert (c div DAY_MS) days else days)"

record stats_updates =
  upd_momentsCount :: nat
  upd_reflectionsCount :: nat
  upd_streakDays :: nat
  upd_bestStreakDays :: nat
  upd_journeyDay :: nat
  upd_lastMomentAt :: "int option"
  upd_lastReflectionAt :: "int option"
  upd_depthMoments :: nat
  upd_emotionCounts :: "(string \<times> nat) list"

text \<open>The object \<^verbatim>\<open>updates\<close> that \<^verbatim>\<open>reconcileStatsFromData\<close> computes and returns.\<close>

definition compute_updates :: "js_env \<Rightarrow> moment list \<Rightarrow> reflection list \<Rightarrow> stats_updates" where
  "compute_updates env momentsSnap reflectionsSnap =
     (case fold moment_step momentsSnap (None, 0, []) of
        (lastMoment, depthCount, counts) \<Rightarrow>
     (case fold reflection_step reflectionsSnap (0, [], None) of
        (reflCount, reflectionDates, lastReflection) \<Rightarrow>
     (case fold streak_step (sortedDates (dateParse env) reflectionDates) (0, 0, None) of
        (streak, bestStreak, prev) \<Rightarrow>
       (let hasToday = (currentDateKey env \<in> set reflectionDates);
            journeyDays = fold (journey_step (sevenDaysAgo env)) momentsSnap []
        in \<lparr> upd_momentsCount = length momentsSnap,
             upd_reflectionsCount = reflCount,
             upd_streakDays = (if hasToday then streak else 0),
             upd_bestStreakDays = bestStreak,
             upd_journeyDay = min 7 (length journeyDays),
             upd_lastMomentAt = lastMoment,
             upd_lastReflectionAt = lastReflection,
             upd_depthMoments = depthCount,
             upd_emotionCounts = counts \<rparr>))))"

text \<open>
  \<^verbatim>\<open>setDoc(ref, updates, {merge: true})\<close> on the aggregate: the nine fields of
  \<^verbatim>\<open>updates\<close> are written and no other. Firestore merges a non-empty map field
  key by key into the stored map, and an empty one replaces it.
\<close>

definition merge_counts :: "(string \<times> nat) list option \<Rightarrow> (string \<times> nat) list \<Rightarrow> (string \<times> nat) list" where
  "merge_counts stored new =
     (if new = [] then []
      else fold (\<lambda>kv acc. AList.update (fst kv) (snd kv) acc) new
             (case stored of None \<Rightarrow> [] | Some old \<Rightarrow> old))"

definition merge_updates :: "stats_updates \<Rightarrow> stats \<Rightarrow> stats" where
  "merge_updates u st = st \<lparr>
     momentsCount := Some (upd_momentsCount u),
     reflectionsCount := Some (upd_reflectionsCount u),
     streakDays := Some (upd_streakDays u),
     bestStreakDays := Some (upd_bestStreakDays u),
     journeyDay := Some (upd_journeyDay u),
     lastMomentAt := upd_lastMomentAt u,
     lastReflectionAt := upd_lastReflectionAt u,
     depthMoments := Some (upd_depthMoments u),
     emotionCounts := Some (merge_counts (emotionCounts st) (upd_emotionCounts u)) \<rparr>"

definition reconcileStatsFromData :: "js_env \<Rightarrow> string \<Rightarrow> db \<Rightarrow> stats_updates \<times> db" where
  "reconcileStatsFromData env uid d =
     (let d1 = ensureStatsDoc env uid d;
          updates = compute_updates env (moments d1 uid) (daily_reflections d1 uid);
          st = snapshot_data (stats_main d1 uid)
      in (updates, d1 \<lparr> stats_main := (stats_main d1)(uid := Some (merge_updates updates st)) \<rparr>))"

subsection \<open>reconcileBadges\<close>

definition BADGE_DEFINITIONS :: "BadgeDefinition list" where
  "BADGE_DEFINITIONS = [
     \<lparr> badge_id = ''first_steps'', category = getting_started,
       criteriaType = moments_logged, threshold = 1, emotionType = None, xpReward = 10 \<rparr>,
     \<lparr> badge_id = ''reflection_starter'', category = getting_started,
       criteriaType = reflections_completed, threshold = 1, emotionType = None, xpReward = 15 \<rparr>,
     \<lparr> badge_id = ''three_in_a_row'', category = consistency,
       criteriaType = reflections_completed, threshold = 3, emotionType = None, xpReward = 25 \<rparr>,
     \<lparr> badge_id = ''weekly_warrior'', category = consistency,
       criteriaType = reflections_completed, threshold = 7, emotionType = None, xpReward = 50 \<rparr>,
     \<lparr> badge_id = ''depth_builder'', category = depth,
       criteriaType = tags_added, threshold = 5, emotionType = None, xpReward = 20 \<rparr>,
     \<lparr> badge_id = ''detail_master'', category = depth,
       criteriaType = tags_added, threshold = 20, emotionType = None, xpReward = 40 \<rparr>,
     \<lparr> badge_id = ''calm_finder'', category = emotion_cat,
       criteriaType = emotion_logged, threshold = 5, emotionType = Some ''Calm'', xpReward = 20 \<rparr>,
     \<lparr> badge_id = ''hard_truth'', category = emotion_cat,
       criteriaType = emotion_logged, threshold = 3, emotionType = Some ''Hurt'', xpReward = 30 \<rparr>,
     \<lparr> badge_id = ''joy_seeker'', category = emotion_cat,
       criteriaType = emotion_logged, threshold = 10, emotionType = Some ''Happy'', xpReward = 25 \<rparr>,
     \<lparr> badge_id = ''pattern_hunter'', category = insight,
       criteriaType = patterns_viewed, threshold = 3, emotionType = None, xpReward = 15 \<rparr>,
     \<lparr> badge_id = ''streak_starter'', category = consistency,
       criteriaType = streak_days, threshold = 3, emotionType = None, xpReward = 30 \<rparr>,
     \<lparr> badge_id = ''committed'', category = consistency,
       criteriaType = streak_days, threshold = 7, emotionType = None, xpReward = 60 \<rparr> ]"

text \<open>The decimal digits of a number, for \<^verbatim>\<open>`${progressCurrent}/${target}`\<close>.\<close>

fun show_nat :: "nat \<Rightarrow> string" where
  "show_nat n =
     (if n < 10 then [char_of (48 + n)]
      else show_nat (n div 10) @ [char_of (48 + n mod 10)])"

text \<open>The supplemental counts that \<^verbatim>\<open>reconcileBadges\<close> takes from the raw collections.\<close>

definition reflectionsDays :: "reflection list \<Rightarrow> string list" where
  "reflectionsDays reflectionsSnap =
     fold (\<lambda>r days. if completed r then List.insert (reflection_dateKey r) days else days)
       reflectionsSnap []"

fun badge_moment_step :: "moment \<Rightarrow> nat \<times> (string \<times> nat) list \<Rightarrow> nat \<times> (string \<times> nat) list" where
  "badge_moment_step m (tagsNotesCount, counts) =
     ((if has_depth m then tagsNotesCount + 1 else tagsNotesCount),
      (if emotion m \<noteq> [] then count_emotion (emotion m) counts else counts))"

text \<open>The \<^verbatim>\<open>switch\<close> on the criteria type.\<close>

fun badge_progress ::
  "stats \<Rightarrow> nat \<Rightarrow> nat \<Rightarrow> (string \<times> nat) list \<Rightarrow> BadgeDefinition \<Rightarrow> nat" where
  "badge_progress st reflDays tagsNotesCount counts def =
     (case criteriaType def of
        moments_logged \<Rightarrow> or_zero (momentsCount st)
      | reflections_completed \<Rightarrow> reflDays
      | tags_added \<Rightarrow> tagsNotesCount
      | emotion_logged \<Rightarrow>
          or_zero (map_of counts (case emotionType def of None \<Rightarrow> [] | Some e \<Rightarrow> e))
      | streak_days \<Rightarrow> or_zero (streakDays st)
      | patterns_viewed \<Rightarrow> or_zero (patternsViewed st))"

text \<open>The record that one iteration of the loop over the catalog merge-writes.\<close>

definition badge_write ::
  "js_env \<Rightarrow> stats \<Rightarrow> nat \<Rightarrow> nat \<Rightarrow> (string \<times> nat) list \<Rightarrow> BadgeDefinition \<Rightarrow> badge_record" where
  "badge_write env st reflDays tagsNotesCount counts def =
     (let current = badge_progress st reflDays tagsNotesCount counts def;
          target = threshold def;
          isEarned = (current \<ge> target \<and> target > 0)
      in \<lparr> earned = isEarned,
           earnedAt = (if isEarned then Some (serverTime env) else None),
           progressCurrent = current,
           progressTarget = target,
           progressText = show_nat current @ ''/'' @ show_nat target,
           badge_category = category def \<rparr>)"

text \<open>
  \<^verbatim>\<open>setDoc(badgeRef, {...}, {merge: true})\<close>: the six fields written are all the
  fields of a badge record, so the written record replaces the stored one.
\<close>

definition set_badge :: "string \<Rightarrow> string \<Rightarrow> badge_record \<Rightarrow> db \<Rightarrow> db" where
  "set_badge uid bid r d = d \<lparr> badges := (badges d)(uid := (badges d uid)(bid := Some r)) \<rparr>"

definition reconcileBadges :: "js_env \<Rightarrow> string \<Rightarrow> db \<Rightarrow> db" where
  "reconcileBadges env uid d =
     (case stats_main d uid of
        None \<Rightarrow> d
      | Some st \<Rightarrow>
          (let reflDays = length (reflectionsDays (daily_reflections d uid));
               sup = fold badge_moment_step (moments d uid) (0, [])
           in fold (\<lambda>def. set_badge uid (badge_id def)
                      (badge_write env st reflDays (fst sup) (snd sup) def))
                BADGE_DEFINITIONS d))"

text \<open>
  The date keys that the loop over the reflections collects in \<^verbatim>\<open>reflectionDates\<close>
  (see \<open>fold_reflection_step\<close> below).
\<close>

definition completed_keys :: "reflection list \<Rightarrow> string list" where
  "completed_keys rs = map reflection_dateKey (filter completed rs)"

subsection \<open>The scenario of the specification\<close>

text \<open>
  User \<^verbatim>\<open>u1\<close> with the aggregate \<^verbatim>\<open>{allTimeXP: 40, weeklyXP: 40, weeklyKey: "2024-W01"}\<close>,
  no XP event, no moment, no reflection and no badge; the runtime in a given week.
\<close>

definition scenario_stats :: stats where
  "scenario_stats = empty_stats \<lparr> allTimeXP := Some 40, weeklyXP := Some 40,
     weeklyKey := Some ''2024-W01'' \<rparr>"

definition scenario_db :: db where
  "scenario_db = \<lparr> stats_main = (\<lambda>u. None)(''u1'' := Some scenario_stats),
     xp_events = (\<lambda>u k. None), moments = (\<lambda>u. []), daily_reflections = (\<lambda>u. []),
     badges = (\<lambda>u k. None) \<rparr>"

definition scenario_env :: "string \<Rightarrow> js_env" where
  "scenario_env week = \<lparr> currentWeekKey = week, currentDateKey = ''2024-01-08'',
     sevenDaysAgo = 1704153600000, serverTime = 1704672000000, dateParse = (\<lambda>s. None) \<rparr>"

subsection \<open>The streak computation as the specification words it\<close>

text \<open>
  The times of the valid date keys, in the order of the keys, and the calendar days
  (days since the epoch, UTC) they fall on.
\<close>

definition valid_times :: "(string \<Rightarrow> int option) \<Rightarrow> string list \<Rightarrow> int list" where
  "valid_times parse keys = map the (filter (\<lambda>t. t \<noteq> None) (map parse keys))"

definition calendar_days :: "(string \<Rightarrow> int option) \<Rightarrow> string list \<Rightarrow> int list" where
  "calendar_days parse keys = map (\<lambda>t. t div DAY_MS) (valid_times parse keys)"

text \<open>
  The walk in the specification's words, on calendar days: the first date starts
  a streak of 1, a gap of exactly one day from the previous date extends the
  streak, any other gap restarts it at 1, and the maximum is tracked.
\<close>

fun spec_streak_walk :: "int option \<Rightarrow> nat \<Rightarrow> nat \<Rightarrow> int list \<Rightarrow> nat \<times> nat" where
  "spec_streak_walk prev streak best [] = (streak, best)"
| "spec_streak_walk prev streak best (day # days) =
     (let streak' = (case prev of None \<Rightarrow> 1 | Some p \<Rightarrow> if p - day = 1 then streak + 1 else 1)
      in spec_streak_walk (Some day) streak' (max best streak') days)"

text \<open>
  The specification's streak: de-duplicate the days, sort them descending, walk,
  and force the streak to 0 when today is not among the completed dates. The
  result is (streakDays, bestStreakDays).
\<close>

definition spec_streaks :: "int list \<Rightarrow> bool \<Rightarrow> nat \<times> nat" where
  "spec_streaks days hasToday =
     (case spec_streak_walk None 0 0 (rev (sort (remdups days))) of
        (streak, best) \<Rightarrow> (if hasToday then streak else 0, best))"

subsection \<open>Example data\<close>

text \<open>
  Monday 8 to Thursday 11 January 2024 as the runtime parses them (UTC midnight),
  a runtime whose current date is given, reflections completed on given days, and
  the scenario's store with such reflections for \<^verbatim>\<open>u1\<close>.
\<close>

definition example_dateParse :: "string \<Rightarrow> int option" where
  "example_dateParse s =
     (if s = ''2024-01-08'' then Some 1704672000000
      else if s = ''2024-01-09'' then Some 1704758400000
      else if s = ''2024-01-10'' then Some 1704844800000
      else if s = ''2024-01-11'' then Some 1704931200000
      else None)"

definition example_env :: "string \<Rightarrow> js_env" where
  "example_env today = \<lparr> currentWeekKey = ''2024-W02'', currentDateKey = today,
     sevenDaysAgo = 1704326400000, serverTime = 1704844800000,
     dateParse = example_dateParse \<rparr>"

definition completed_on :: "string \<Rightarrow> reflection" where
  "completed_on k = \<lparr> refl_id = k, dateKey = k, completed = True, completedAt = None \<rparr>"

definition example_db :: "string list \<Rightarrow> db" where
  "example_db days = scenario_db \<lparr> daily_reflections := (\<lambda>u. [])(''u1'' := map completed_on days) \<rparr>"

section \<open>Properties\<close>

lemma computeLevel_cases:
  "computeLevel xp =
     (if xp \<ge> 7500 then 7 else if xp \<ge> 3500 then 6 else if xp \<ge> 1500 then 5
      else if xp \<ge> 600 then 4 else if xp \<ge> 200 then 3 else if xp \<ge> 50 then 2 else 1)"
  by (simp add: computeLevel_def LEVEL_THRESHOLDS_def)

subsection \<open>Level calculator\<close>

text \<open>
  The loop keeps the index of the last threshold that the XP reaches. On an
  ascending table that is the number of thresholds at or below the XP, whatever
  the table holds.
\<close>

lemma computeLevel_loop_count:
  "sorted ts \<Longrightarrow>
   computeLevel_loop ts xp i lvl =
     (if filter (\<lambda>t. t \<le> xp) ts = [] then lvl else i + length (filter (\<lambda>t. t \<le> xp) ts))"
proof (induction ts arbitrary: i lvl)
  case Nil
  then show ?case by simp
next
  case (Cons t ts)
  show ?case
  proof (cases "t \<le> xp")
    case True
    with Cons show ?thesis by simp
  next
    case False
    with Cons.prems have "filter (\<lambda>t. t \<le> xp) ts = []"
      by (auto simp: filter_empty_conv)
    with False Cons show ?thesis by simp
  qed
qed

lemma sorted_LEVEL_THRESHOLDS: "sorted LEVEL_THRESHOLDS"
  by (simp add: LEVEL_THRESHOLDS_def)

lemma computeLevel_count:
  "computeLevel xp = max 1 (length (filter (\<lambda>t. t \<le> xp) LEVEL_THRESHOLDS))"
proof -
  have "length (filter (\<lambda>t. t \<le> xp) LEVEL_THRESHOLDS) \<le> length LEVEL_THRESHOLDS"
    by (rule length_filter_le)
  then show ?thesis
    unfolding computeLevel_def computeLevel_loop_count [OF sorted_LEVEL_THRESHOLDS]
    by (auto simp: LEVEL_THRESHOLDS_def)
qed

text \<open>
  C3, as stated: \<open>computeLevel xp\<close> would be one more than the number of thresholds
  at or below \<open>xp\<close>, capped at the table length. At \<open>xp = 0\<close> one threshold (the
  first, 0) is at or below the XP, so the formula gives 2, and the code returns 1.
\<close>

theorem computeLevel_one_plus_count_counterexample:
  "computeLevel 0 \<noteq>
     min (1 + length (filter (\<lambda>t. t \<le> 0) LEVEL_THRESHOLDS)) (length LEVEL_THRESHOLDS)"
  by (simp add: computeLevel_cases LEVEL_THRESHOLDS_def)

text \<open>
  C3, amended: for every non-negative XP, \<open>computeLevel xp\<close> is the number of
  thresholds of the table \<open>[0, 50, 200, 600, 1500, 3500, 7500]\<close> that are at or below
  \<open>xp\<close> (not one more than that number), capped at the table length.
\<close>

theorem computeLevel_counts_thresholds:
  "0 \<le> xp \<Longrightarrow>
   computeLevel xp =
     min (length (filter (\<lambda>t. t \<le> xp) LEVEL_THRESHOLDS)) (length LEVEL_THRESHOLDS) \<and>
   LEVEL_THRESHOLDS = [0, 50, 200, 600, 1500, 3500, 7500]"
proof -
  assume "0 \<le> xp"
  then have "1 \<le> length (filter (\<lambda>t. t \<le> xp) LEVEL_THRESHOLDS)"
    by (simp add: LEVEL_THRESHOLDS_def)
  moreover have "length (filter (\<lambda>t. t \<le> xp) LEVEL_THRESHOLDS) \<le> length LEVEL_THRESHOLDS"
    by (rule length_filter_le)
  ultimately show ?thesis
    by (simp add: computeLevel_count) (simp add: LEVEL_THRESHOLDS_def)
qed

theorem computeLevel_counts_thresholds_witness:
  "(0::int) \<le> 50 \<and> computeLevel 50 = 2 \<and>
   min (length (filter (\<lambda>t. t \<le> 50) LEVEL_THRESHOLDS)) (length LEVEL_THRESHOLDS) = 2"
  using computeLevel_counts_thresholds [of 50] by (simp add: LEVEL_THRESHOLDS_def)

text \<open>
  C4: \<open>computeLevel\<close> is non-decreasing in the XP, is 1 at XP 0, and never exceeds
  the length of the threshold table; on the table \<open>[0, 50, 200, 600, 1500, 3500, 7500]\<close>
  it is 1 at 49, 2 at 50, 7 at 7500 and 7 at 1000000. The function is total: no
  input makes it fail.
\<close>

theorem computeLevel_monotone_capped:
  "(xp \<le> xp' \<longrightarrow> computeLevel xp \<le> computeLevel xp') \<and>
   computeLevel 0 = 1 \<and>
   computeLevel xp \<le> length LEVEL_THRESHOLDS \<and>
   LEVEL_THRESHOLDS = [0, 50, 200, 600, 1500, 3500, 7500] \<and>
   computeLevel 49 = 1 \<and> computeLevel 50 = 2 \<and> computeLevel 7500 = 7 \<and>
   computeLevel 1000000 = 7"
proof -
  have mono: "xp \<le> xp' \<longrightarrow> computeLevel xp \<le> computeLevel xp'"
    by (simp add: computeLevel_cases)
  have cap: "computeLevel xp \<le> length LEVEL_THRESHOLDS"
    by (simp add: computeLevel_def)
  have vals: "computeLevel 0 = 1" "computeLevel 49 = 1" "computeLevel 50 = 2"
    "computeLevel 7500 = 7" "computeLevel 1000000 = 7"
    by (simp_all add: computeLevel_cases)
  from mono cap vals show ?thesis
    by (simp add: LEVEL_THRESHOLDS_def)
qed

theorem computeLevel_monotone_capped_witness:
  "(49::int) \<le> 50 \<and> computeLevel 49 \<le> computeLevel 50"
  using computeLevel_monotone_capped [of 49 50] by simp

subsection \<open>awardXpOnce\<close>

lemma awardXpOnce_tx_existing:
  "xp_events d u k = Some ev \<Longrightarrow>
   awardXpOnce_tx env u k a md d = (not_awarded, d, [TxGet (XpEventRef u k)])"
  by (simp add: awardXpOnce_tx_def)

lemma awardXpOnce_tx_fresh:
  assumes "xp_events d u k = None"
    and "awardXpOnce_tx env u k a md d = (r, d', ops)"
  shows "r = \<lparr> awarded = True,
               result_level = Some (computeLevel (or_zero (allTimeXP (snapshot_data (stats_main d u))) + a)) \<rparr>"
    and "xp_events d' u k \<noteq> None"
    and "allTimeXP (snapshot_data (stats_main d' u)) =
           Some (or_zero (allTimeXP (snapshot_data (stats_main d u))) + a)"
    and "weeklyXP (snapshot_data (stats_main d' u)) =
           Some ((if weeklyKey (snapshot_data (stats_main d u)) = Some (currentWeekKey env)
                  then or_zero (weeklyXP (snapshot_data (stats_main d u))) else 0) + a)"
    and "weeklyKey (snapshot_data (stats_main d' u)) = Some (currentWeekKey env)"
    and "level (snapshot_data (stats_main d' u)) =
           Some (computeLevel (or_zero (allTimeXP (snapshot_data (stats_main d u))) + a))"
    and "levelName (snapshot_data (stats_main d' u)) =
           Some (computeLevelName (computeLevel (or_zero (allTimeXP (snapshot_data (stats_main d u))) + a)))"
    and "ops = [TxGet (XpEventRef u k), TxGet (StatsRef u), TxSet (XpEventRef u k), TxSet (StatsRef u)]"
  using assms by (auto simp: awardXpOnce_tx_def Let_def snapshot_data_def)

lemma awardXpOnce_tx_marks:
  assumes "awardXpOnce_tx env u k a md d = (r, d', ops)"
  shows "xp_events d' u k \<noteq> None"
  using assms by (cases "xp_events d u k") (auto simp: awardXpOnce_tx_def Let_def)

text \<open>
  C1, as stated: from every user state, two calls with the same key would raise
  \<open>weeklyXP\<close> by exactly the amount, and the first call would return
  \<^verbatim>\<open>awarded: true\<close>. From the scenario's aggregate (\<open>weeklyXP = 40\<close> of week
  \<open>2024-W01\<close>), two calls of 10 XP in week \<open>2024-W02\<close> leave \<open>weeklyXP = 10\<close>, not
  50: the stored value is of another week and counts as 0. And from the store the
  first of these calls leaves, where the key has its XP event, a call with the
  same key returns \<^verbatim>\<open>awarded: false\<close>.
\<close>

theorem awardXpOnce_weekly_increment_counterexample:
  "weeklyXP (snapshot_data (stats_main scenario_db ''u1'')) = Some 40 \<and>
   weeklyXP (snapshot_data (stats_main (fst (snd (awardXpOnce (scenario_env ''2024-W02'')
     (Some ''u1'') ''K'' 10 None
     (fst (snd (awardXpOnce (scenario_env ''2024-W02'') (Some ''u1'') ''K'' 10 None
        scenario_db)))))) ''u1'')) = Some 10 \<and>
   weeklyXP (snapshot_data (stats_main (fst (snd (awardXpOnce (scenario_env ''2024-W02'')
     (Some ''u1'') ''K'' 10 None
     (fst (snd (awardXpOnce (scenario_env ''2024-W02'') (Some ''u1'') ''K'' 10 None
        scenario_db)))))) ''u1'')) \<noteq> Some (40 + 10) \<and>
   awarded (fst (awardXpOnce (scenario_env ''2024-W02'') (Some ''u1'') ''K'' 10 None
     (fst (snd (awardXpOnce (scenario_env ''2024-W02'') (Some ''u1'') ''K'' 10 None
        scenario_db))))) = False"
proof -
  let ?env = "scenario_env ''2024-W02''"
  let ?first = "awardXpOnce ?env (Some ''u1'') ''K'' 10 None scenario_db"
  let ?second = "awardXpOnce ?env (Some ''u1'') ''K'' 10 None (fst (snd ?first))"
  have tx1: "awardXpOnce_tx ?env ''u1'' ''K'' 10 None scenario_db
      = (fst ?first, fst (snd ?first), snd (snd ?first))"
    by (simp add: awardXpOnce_def)
  have fresh: "xp_events scenario_db ''u1'' ''K'' = None"
    by (simp add: scenario_db_def)
  have stored: "weeklyXP (snapshot_data (stats_main scenario_db ''u1'')) = Some 40"
    "weeklyKey (snapshot_data (stats_main scenario_db ''u1'')) \<noteq> Some (currentWeekKey ?env)"
    by (simp_all add: scenario_db_def scenario_stats_def scenario_env_def snapshot_data_def)
  from awardXpOnce_tx_fresh(4) [OF fresh tx1] stored(2)
  have after_first: "weeklyXP (snapshot_data (stats_main (fst (snd ?first)) ''u1'')) = Some 10"
    by simp
  from awardXpOnce_tx_marks [OF tx1]
  obtain ev where "xp_events (fst (snd ?first)) ''u1'' ''K'' = Some ev"
    by blast
  then have "awardXpOnce_tx ?env ''u1'' ''K'' 10 None (fst (snd ?first))
      = (not_awarded, fst (snd ?first), [TxGet (XpEventRef ''u1'' ''K'')])"
    by (rule awardXpOnce_tx_existing)
  then have second: "?second = (not_awarded, fst (snd ?first), [TxGet (XpEventRef ''u1'' ''K'')])"
    by (simp add: awardXpOnce_def)
  have "awarded (fst ?second) = False" and "fst (snd ?second) = fst (snd ?first)"
    unfolding second by (simp_all add: not_awarded_def)
  with stored(1) after_first show ?thesis
    by simp
qed

text \<open>
  C1, amended: \<open>awardXpOnce\<close> is idempotent per key. For a non-empty user id, a
  non-empty key and a positive amount, from every store: the second of two calls
  with the same key (at any later time, with any metadata) returns
  \<^verbatim>\<open>awarded: false\<close>, level null, and leaves the store as the first call left
  it. When the key had no XP event before, the first call returns
  \<^verbatim>\<open>awarded: true\<close>, and after both calls \<open>allTimeXP\<close> is the previous value plus
  the amount, once, and \<open>weeklyXP\<close> is the amount, once, plus the stored
  \<open>weeklyXP\<close> when the stored week key is the current week key, and plus 0
  otherwise.
\<close>

theorem awardXpOnce_idempotent:
  assumes "u \<noteq> []" "k \<noteq> []" "0 < a"
    and first: "awardXpOnce env (Some u) k a md d = (r1, d1, ops1)"
    and second: "awardXpOnce env' (Some u) k a md' d1 = (r2, d2, ops2)"
  shows "awarded r2 = False \<and> result_level r2 = None \<and> d2 = d1 \<and>
         (xp_events d u k = None \<longrightarrow>
            awarded r1 = True \<and>
            allTimeXP (snapshot_data (stats_main d2 u)) =
              Some (or_zero (allTimeXP (snapshot_data (stats_main d u))) + a) \<and>
            weeklyXP (snapshot_data (stats_main d2 u)) =
              Some ((if weeklyKey (snapshot_data (stats_main d u)) = Some (currentWeekKey env)
                     then or_zero (weeklyXP (snapshot_data (stats_main d u))) else 0) + a))"
proof -
  from assms(1-3) first have tx1: "awardXpOnce_tx env u k a md d = (r1, d1, ops1)"
    by (simp add: awardXpOnce_def)
  from assms(1-3) second have tx2: "awardXpOnce_tx env' u k a md' d1 = (r2, d2, ops2)"
    by (simp add: awardXpOnce_def)
  from tx1 obtain ev where "xp_events d1 u k = Some ev"
    using awardXpOnce_tx_marks by fastforce
  with tx2 have noop: "r2 = not_awarded" "d2 = d1"
    by (simp_all add: awardXpOnce_tx_existing)
  have "awarded r1 = True \<and>
        allTimeXP (snapshot_data (stats_main d1 u)) =
          Some (or_zero (allTimeXP (snapshot_data (stats_main d u))) + a) \<and>
        weeklyXP (snapshot_data (stats_main d1 u)) =
          Some ((if weeklyKey (snapshot_data (stats_main d u)) = Some (currentWeekKey env)
                 then or_zero (weeklyXP (snapshot_data (stats_main d u))) else 0) + a)"
    if "xp_events d u k = None"
    using awardXpOnce_tx_fresh(1,3,4) [OF that tx1] by simp
  with noop show ?thesis
    by (simp add: not_awarded_def)
qed


theorem awardXpOnce_idempotent_witness:
  "awarded (fst (awardXpOnce (scenario_env ''2024-W01'') (Some ''u1'') ''K'' 10 None scenario_db)) = True \<and>
   awarded (fst (awardXpOnce (scenario_env ''2024-W01'') (Some ''u1'') ''K'' 10 None
     (fst (snd (awardXpOnce (scenario_env ''2024-W01'') (Some ''u1'') ''K'' 10 None scenario_db))))) = False \<and>
   allTimeXP (snapshot_data (stats_main (fst (snd (awardXpOnce (scenario_env ''2024-W01'') (Some ''u1'') ''K'' 10 None
     (fst (snd (awardXpOnce (scenario_env ''2024-W01'') (Some ''u1'') ''K'' 10 None scenario_db)))))) ''u1''))
     = Some 50 \<and>
   weeklyXP (snapshot_data (stats_main (fst (snd (awardXpOnce (scenario_env ''2024-W01'') (Some ''u1'') ''K'' 10 None
     (fst (snd (awardXpOnce (scenario_env ''2024-W01'') (Some ''u1'') ''K'' 10 None scenario_db)))))) ''u1''))
     = Some 50"
proof -
  let ?env = "scenario_env ''2024-W01''"
  let ?first = "awardXpOnce ?env (Some ''u1'') ''K'' 10 None scenario_db"
  let ?second = "awardXpOnce ?env (Some ''u1'') ''K'' 10 None (fst (snd ?first))"
  have fresh: "xp_events scenario_db ''u1'' ''K'' = None"
    by (simp add: scenario_db_def)
  have before: "or_zero (allTimeXP (snapshot_data (stats_main scenario_db ''u1''))) = 40"
    "or_zero (weeklyXP (snapshot_data (stats_main scenario_db ''u1''))) = 40"
    "weeklyKey (snapshot_data (stats_main scenario_db ''u1'')) = Some (currentWeekKey ?env)"
    by (simp_all add: scenario_db_def scenario_stats_def scenario_env_def snapshot_data_def
        or_zero_def)
  have "''u1'' \<noteq> []" "''K'' \<noteq> []" "(0::int) < 10"
    by simp_all
  note both = awardXpOnce_idempotent [OF this, of ?env None scenario_db "fst ?first" "fst (snd ?first)"
      "snd (snd ?first)" ?env None "fst ?second" "fst (snd ?second)" "snd (snd ?second)"]
  have same: "fst (snd ?second) = fst (snd ?first)" and no: "awarded (fst ?second) = False"
    using both by simp_all
  have "awarded (fst ?first) = True \<and>
      allTimeXP (snapshot_data (stats_main (fst (snd ?second)) ''u1'')) = Some (40 + 10) \<and>
      weeklyXP (snapshot_data (stats_main (fst (snd ?second)) ''u1'')) = Some (40 + 10)"
    using both fresh before by auto
  with no show ?thesis
    by simp
qed

text \<open>
  C2, as stated: in the scenario the call would return \<^verbatim>\<open>{awarded: true, level: 1}\<close>.
  The code returns the level computed from the new total, 50, which is 2.
\<close>

theorem awardXpOnce_scenario_level_counterexample:
  "fst (awardXpOnce (scenario_env ''2024-W01'') (Some ''u1'') ''MOMENT_COMPLETED_2024-01-08'' 10
         None scenario_db)
     \<noteq> \<lparr> awarded = True, result_level = Some 1 \<rparr>"
  by (simp add: awardXpOnce_def awardXpOnce_tx_def Let_def scenario_db_def scenario_stats_def
      scenario_env_def snapshot_data_def or_zero_def computeLevel_cases)

text \<open>
  C2, amended: from an aggregate with \<open>allTimeXP = 40\<close>, \<open>weeklyXP = 40\<close> and
  \<open>weeklyKey = 2024-W01\<close>, in week \<open>2024-W01\<close> and with no XP event at the key,
  \<open>awardXpOnce u1 MOMENT_COMPLETED_2024-01-08 10\<close> returns
  \<^verbatim>\<open>{awarded: true, level: 2}\<close>, and the new aggregate has \<open>allTimeXP = 50\<close>,
  \<open>weeklyXP = 50\<close> and \<open>level = 2\<close>.
\<close>

theorem awardXpOnce_scenario:
  assumes "stats_main d ''u1'' = Some st"
    and "allTimeXP st = Some 40" "weeklyXP st = Some 40" "weeklyKey st = Some ''2024-W01''"
    and "currentWeekKey env = ''2024-W01''"
    and "xp_events d ''u1'' ''MOMENT_COMPLETED_2024-01-08'' = None"
    and "awardXpOnce env (Some ''u1'') ''MOMENT_COMPLETED_2024-01-08'' 10 md d = (r, d', ops)"
  shows "r = \<lparr> awarded = True, result_level = Some 2 \<rparr> \<and>
         (\<exists>st'. stats_main d' ''u1'' = Some st' \<and> allTimeXP st' = Some 50 \<and>
            weeklyXP st' = Some 50 \<and> weeklyKey st' = Some ''2024-W01'' \<and>
            level st' = Some 2 \<and> levelName st' = Some ''levels.explorer'')"
  using assms
  by (auto simp: awardXpOnce_def awardXpOnce_tx_def Let_def snapshot_data_def or_zero_def
      computeLevel_cases computeLevelName_def LEVEL_NAMES_def)

theorem awardXpOnce_scenario_witness:
  "fst (awardXpOnce (scenario_env ''2024-W01'') (Some ''u1'') ''MOMENT_COMPLETED_2024-01-08'' 10
         None scenario_db) = \<lparr> awarded = True, result_level = Some 2 \<rparr> \<and>
   (\<exists>st'. stats_main (fst (snd (awardXpOnce (scenario_env ''2024-W01'') (Some ''u1'')
              ''MOMENT_COMPLETED_2024-01-08'' 10 None scenario_db))) ''u1'' = Some st' \<and>
      allTimeXP st' = Some 50 \<and> weeklyXP st' = Some 50 \<and> weeklyKey st' = Some ''2024-W01'' \<and>
      level st' = Some 2 \<and> levelName st' = Some ''levels.explorer'')"
proof -
  let ?env = "scenario_env ''2024-W01''"
  let ?res = "awardXpOnce ?env (Some ''u1'') ''MOMENT_COMPLETED_2024-01-08'' 10 None scenario_db"
  have "stats_main scenario_db ''u1'' = Some scenario_stats"
    and "allTimeXP scenario_stats = Some 40" and "weeklyXP scenario_stats = Some 40"
    and "weeklyKey scenario_stats = Some ''2024-W01''"
    and "currentWeekKey ?env = ''2024-W01''"
    and "xp_events scenario_db ''u1'' ''MOMENT_COMPLETED_2024-01-08'' = None"
    and "?res = (fst ?res, fst (snd ?res), snd (snd ?res))"
    by (simp_all add: scenario_db_def scenario_stats_def scenario_env_def)
  from awardXpOnce_scenario [OF this] show ?thesis .
qed

text \<open>
  C5: when the stored \<open>weeklyKey\<close> is not the current week key, a successful
  \<open>awardXpOnce\<close> counts the stored \<open>weeklyXP\<close> as 0: the new \<open>weeklyXP\<close> is the
  amount, and the stored \<open>weeklyKey\<close> becomes the current week key. The instance
  below is the example of the specification: \<open>weeklyXP = 40\<close> of week \<open>2024-W01\<close>, 10 XP in
  week \<open>2024-W02\<close>, new \<open>weeklyXP = 10\<close>.
\<close>

theorem awardXpOnce_weekly_reset:
  assumes "u \<noteq> []" "k \<noteq> []" "0 < a"
    and "xp_events d u k = None"
    and "weeklyKey (snapshot_data (stats_main d u)) \<noteq> Some (currentWeekKey env)"
    and "awardXpOnce env (Some u) k a md d = (r, d', ops)"
  shows "awarded r = True \<and>
         weeklyXP (snapshot_data (stats_main d' u)) = Some a \<and>
         weeklyKey (snapshot_data (stats_main d' u)) = Some (currentWeekKey env)"
proof -
  from assms(1-3,6) have tx: "awardXpOnce_tx env u k a md d = (r, d', ops)"
    by (simp add: awardXpOnce_def)
  from awardXpOnce_tx_fresh(1,4,5) [OF assms(4) tx] assms(5) show ?thesis
    by simp
qed

theorem awardXpOnce_weekly_reset_witness:
  "weeklyXP scenario_stats = Some 40 \<and> weeklyKey scenario_stats = Some ''2024-W01'' \<and>
   weeklyXP (snapshot_data (stats_main (fst (snd (awardXpOnce (scenario_env ''2024-W02'')
     (Some ''u1'') ''K'' 10 None scenario_db))) ''u1'')) = Some 10 \<and>
   weeklyKey (snapshot_data (stats_main (fst (snd (awardXpOnce (scenario_env ''2024-W02'')
     (Some ''u1'') ''K'' 10 None scenario_db))) ''u1'')) = Some ''2024-W02''"
proof -
  let ?env = "scenario_env ''2024-W02''"
  let ?res = "awardXpOnce ?env (Some ''u1'') ''K'' 10 None scenario_db"
  have "''u1'' \<noteq> []" and "''K'' \<noteq> []" and "(0::int) < 10"
    and "xp_events scenario_db ''u1'' ''K'' = None"
    and "weeklyKey (snapshot_data (stats_main scenario_db ''u1'')) \<noteq> Some (currentWeekKey ?env)"
    and "?res = (fst ?res, fst (snd ?res), snd (snd ?res))"
    by (simp_all add: scenario_db_def scenario_stats_def scenario_env_def snapshot_data_def)
  from awardXpOnce_weekly_reset [OF this] show ?thesis
    by (simp add: scenario_stats_def scenario_env_def)
qed

text \<open>
  C9: with a missing or empty user id, an empty key or an amount that is not
  positive, \<open>awardXpOnce\<close> returns \<^verbatim>\<open>{awarded: false, level: null}\<close>, leaves the
  store as it is and issues no read and no write.
\<close>

theorem awardXpOnce_invalid_noop:
  "uid = None \<or> uid = Some [] \<or> eventId = [] \<or> amount \<le> 0 \<Longrightarrow>
   awardXpOnce env uid eventId amount md d = (\<lparr> awarded = False, result_level = None \<rparr>, d, [])"
  by (auto simp: awardXpOnce_def not_awarded_def split: option.splits)

theorem awardXpOnce_invalid_noop_witness:
  "awardXpOnce (scenario_env ''2024-W01'') None ''K'' 10 None scenario_db
     = (\<lparr> awarded = False, result_level = None \<rparr>, scenario_db, []) \<and>
   awardXpOnce (scenario_env ''2024-W01'') (Some []) ''K'' 10 None scenario_db
     = (\<lparr> awarded = False, result_level = None \<rparr>, scenario_db, []) \<and>
   awardXpOnce (scenario_env ''2024-W01'') (Some ''u1'') [] 10 None scenario_db
     = (\<lparr> awarded = False, result_level = None \<rparr>, scenario_db, []) \<and>
   awardXpOnce (scenario_env ''2024-W01'') (Some ''u1'') ''K'' 0 None scenario_db
     = (\<lparr> awarded = False, result_level = None \<rparr>, scenario_db, []) \<and>
   awardXpOnce (scenario_env ''2024-W01'') (Some ''u1'') ''K'' (- 5) None scenario_db
     = (\<lparr> awarded = False, result_level = None \<rparr>, scenario_db, [])"
  using awardXpOnce_invalid_noop [of None "''K''" 10 "scenario_env ''2024-W01''" None scenario_db]
    awardXpOnce_invalid_noop [of "Some []" "''K''" 10 "scenario_env ''2024-W01''" None scenario_db]
    awardXpOnce_invalid_noop [of "Some ''u1''" "[]" 10 "scenario_env ''2024-W01''" None scenario_db]
    awardXpOnce_invalid_noop [of "Some ''u1''" "''K''" 0 "scenario_env ''2024-W01''" None scenario_db]
    awardXpOnce_invalid_noop [of "Some ''u1''" "''K''" "- 5" "scenario_env ''2024-W01''" None scenario_db]
  by simp

subsection \<open>reconcileStatsFromData\<close>

text \<open>The store that \<open>ensureStatsDoc\<close> returns has the moments and reflections of the given one.\<close>

lemma reconcile_updates:
  "fst (reconcileStatsFromData env uid d)
     = compute_updates env (moments d uid) (daily_reflections d uid)"
  by (simp add: reconcileStatsFromData_def ensureStatsDoc_def Let_def split: option.splits)

lemma fold_reflection_step:
  "fold reflection_step rs (c, ds, l) =
     (c + length (filter completed rs),
      ds @ map reflection_dateKey (filter completed rs),
      fold (\<lambda>r. later_of (completedAt r)) (filter completed rs) l)"
  by (induction rs arbitrary: c ds l) simp_all

lemma streak_step_le:
  "streak_step date (s, b, p) = (s', b', p') \<Longrightarrow> s' \<le> b'"
  by (auto simp: Let_def)

lemma fold_streak_step_le:
  "fold streak_step xs (s, b, p) = (s', b', p') \<Longrightarrow> s \<le> b \<Longrightarrow> s' \<le> b'"
proof (induction xs arbitrary: s b p)
  case Nil
  then show ?case by simp
next
  case (Cons x xs)
  obtain s1 b1 p1 where step: "streak_step x (s, b, p) = (s1, b1, p1)"
    by (cases "streak_step x (s, b, p)") 
  then have "s1 \<le> b1"
    by (rule streak_step_le)
  moreover from Cons.prems(1) step have "fold streak_step xs (s1, b1, p1) = (s', b', p')"
    by simp
  ultimately show ?case
    by (rule Cons.IH [rotated])
qed

text \<open>The streak fields of the updates, in terms of the completed date keys.\<close>

lemma compute_updates_streaks:
  "fold streak_step (sortedDates (dateParse env) (completed_keys rs)) (0, 0, None) = (s, b, p) \<Longrightarrow>
   upd_streakDays (compute_updates env ms rs) =
     (if currentDateKey env \<in> set (completed_keys rs) then s else 0) \<and>
   upd_bestStreakDays (compute_updates env ms rs) = b"
  by (simp add: compute_updates_def completed_keys_def Let_def fold_reflection_step
      split: prod.splits)

text \<open>
  C10: the updates of \<open>reconcileStatsFromData\<close> satisfy
  \<open>streakDays \<le> bestStreakDays\<close>, for every store, user and runtime, in the
  returned object and in the stored aggregate; and \<open>bestStreakDays\<close> does not
  depend on today's date key, so forcing \<open>streakDays\<close> to 0 for a day without a
  completed reflection leaves it as it is.
\<close>

theorem reconcile_streak_le_best:
  "upd_streakDays (fst (reconcileStatsFromData env uid d))
     \<le> upd_bestStreakDays (fst (reconcileStatsFromData env uid d)) \<and>
   or_zero (streakDays (snapshot_data (stats_main (snd (reconcileStatsFromData env uid d)) uid)))
     \<le> or_zero (bestStreakDays (snapshot_data (stats_main (snd (reconcileStatsFromData env uid d)) uid))) \<and>
   upd_bestStreakDays (fst (reconcileStatsFromData (env \<lparr> currentDateKey := today' \<rparr>) uid d))
     = upd_bestStreakDays (fst (reconcileStatsFromData env uid d))"
proof -
  let ?ms = "moments (ensureStatsDoc env uid d) uid"
  let ?rs = "daily_reflections (ensureStatsDoc env uid d) uid"
  let ?env' = "env \<lparr> currentDateKey := today' \<rparr>"
  obtain s b p where walk:
    "fold streak_step (sortedDates (dateParse env) (completed_keys ?rs)) (0, 0, None) = (s, b, p)"
    by (cases "fold streak_step (sortedDates (dateParse env) (completed_keys ?rs)) (0, 0, None)")
  then have "s \<le> b"
    by (rule fold_streak_step_le) simp
  moreover note compute_updates_streaks [OF walk, of ?ms]
  moreover have same: "ensureStatsDoc ?env' uid d = ensureStatsDoc env uid d"
    by (simp add: ensureStatsDoc_def split: option.splits)
  moreover from walk have
    "fold streak_step (sortedDates (dateParse ?env') (completed_keys ?rs)) (0, 0, None) = (s, b, p)"
    by simp
  note compute_updates_streaks [OF this, of ?ms]
  ultimately show ?thesis
    by (simp add: reconcileStatsFromData_def Let_def snapshot_data_def merge_updates_def or_zero_def)
qed

text \<open>
  C8: \<open>reconcileStatsFromData\<close> writes the nine fields of its \<open>updates\<close> into the
  aggregate and nothing else. \<open>allTimeXP\<close>, \<open>weeklyXP\<close>, \<open>weeklyKey\<close>, \<open>level\<close> and
  \<open>levelName\<close> (and \<open>activeBadgeId\<close>, \<open>journeyWeekKey\<close>, \<open>patternsViewed\<close>) keep the
  values of the aggregate before the call; when there was no aggregate, they keep
  the values that \<open>ensureStatsDoc\<close> has just created it with. The other
  collections and the other users' aggregates are not written.
\<close>

theorem reconcileStatsFromData_frame:
  assumes "reconcileStatsFromData env uid d = (updates, d')"
    and "st0 = (case stats_main d uid of Some s \<Rightarrow> s | None \<Rightarrow> initial_stats (currentWeekKey env))"
  shows "(\<exists>st'. stats_main d' uid = Some st' \<and>
           allTimeXP st' = allTimeXP st0 \<and> weeklyXP st' = weeklyXP st0 \<and>
           weeklyKey st' = weeklyKey st0 \<and> level st' = level st0 \<and>
           levelName st' = levelName st0 \<and> activeBadgeId st' = activeBadgeId st0 \<and>
           journeyWeekKey st' = journeyWeekKey st0 \<and> patternsViewed st' = patternsViewed st0 \<and>
           momentsCount st' = Some (upd_momentsCount updates) \<and>
           reflectionsCount st' = Some (upd_reflectionsCount updates) \<and>
           streakDays st' = Some (upd_streakDays updates) \<and>
           bestStreakDays st' = Some (upd_bestStreakDays updates) \<and>
           journeyDay st' = Some (upd_journeyDay updates) \<and>
           lastMomentAt st' = upd_lastMomentAt updates \<and>
           lastReflectionAt st' = upd_lastReflectionAt updates \<and>
           depthMoments st' = Some (upd_depthMoments updates) \<and>
           emotionCounts st' = Some (merge_counts (emotionCounts st0) (upd_emotionCounts updates))) \<and>
         xp_events d' = xp_events d \<and> moments d' = moments d \<and>
         daily_reflections d' = daily_reflections d \<and> badges d' = badges d \<and>
         (\<forall>u. u \<noteq> uid \<longrightarrow> stats_main d' u = stats_main d u)"
  using assms
  by (auto simp: reconcileStatsFromData_def ensureStatsDoc_def Let_def snapshot_data_def
      merge_updates_def split: option.splits)

theorem reconcileStatsFromData_frame_witness:
  "\<exists>st'. stats_main (snd (reconcileStatsFromData (example_env ''2024-01-10'') ''u1''
             (example_db [''2024-01-08'', ''2024-01-09'', ''2024-01-10'']))) ''u1'' = Some st' \<and>
     allTimeXP st' = Some 40 \<and> weeklyXP st' = Some 40 \<and> weeklyKey st' = Some ''2024-W01'' \<and>
     level st' = None \<and> levelName st' = None \<and>
     momentsCount st' = Some 0 \<and> reflectionsCount st' = Some 3 \<and> streakDays st' = Some 3 \<and>
     bestStreakDays st' = Some 3"
proof -
  let ?env = "example_env ''2024-01-10''"
  let ?d = "example_db [''2024-01-08'', ''2024-01-09'', ''2024-01-10'']"
  let ?res = "reconcileStatsFromData ?env ''u1'' ?d"
  have "?res = (fst ?res, snd ?res)"
    and "scenario_stats = (case stats_main ?d ''u1'' of Some s \<Rightarrow> s
           | None \<Rightarrow> initial_stats (currentWeekKey ?env))"
    by (simp_all add: example_db_def scenario_db_def)
  from reconcileStatsFromData_frame [OF this]
  obtain st' where "stats_main (snd ?res) ''u1'' = Some st'"
    and "allTimeXP st' = allTimeXP scenario_stats" and "weeklyXP st' = weeklyXP scenario_stats"
    and "weeklyKey st' = weeklyKey scenario_stats" and "level st' = level scenario_stats"
    and "levelName st' = levelName scenario_stats"
    and "momentsCount st' = Some (upd_momentsCount (fst ?res))"
    and "reflectionsCount st' = Some (upd_reflectionsCount (fst ?res))"
    and "streakDays st' = Some (upd_streakDays (fst ?res))"
    and "bestStreakDays st' = Some (upd_bestStreakDays (fst ?res))"
    by blast
  moreover have "fst ?res = compute_updates ?env []
      (map completed_on [''2024-01-08'', ''2024-01-09'', ''2024-01-10''])"
    by (simp add: reconcile_updates example_db_def scenario_db_def)
  moreover have "upd_momentsCount (compute_updates ?env []
      (map completed_on [''2024-01-08'', ''2024-01-09'', ''2024-01-10''])) = 0"
    "upd_reflectionsCount (compute_updates ?env []
      (map completed_on [''2024-01-08'', ''2024-01-09'', ''2024-01-10''])) = 3"
    "upd_streakDays (compute_updates ?env []
      (map completed_on [''2024-01-08'', ''2024-01-09'', ''2024-01-10''])) = 3"
    "upd_bestStreakDays (compute_updates ?env []
      (map completed_on [''2024-01-08'', ''2024-01-09'', ''2024-01-10''])) = 3"
    by (simp_all add: compute_updates_def sortedDates_def example_env_def example_dateParse_def
        completed_on_def reflection_dateKey_def DAY_MS_def)
  ultimately show ?thesis
    by (simp add: scenario_stats_def empty_stats_def)
qed

subsection \<open>The streak walk\<close>

text \<open>
  On times that are whole days, a difference of \<open>DAY_MS\<close> is a gap of one calendar
  day, and a larger difference a larger gap.
\<close>

lemma DAY_MS_pos: "0 < DAY_MS"
  by (simp add: DAY_MS_def)

lemma day_gap_one: "p * DAY_MS - y * DAY_MS = DAY_MS \<longleftrightarrow> p - y = 1"
  by (simp add: DAY_MS_def) arith

lemma day_gap_more: "p * DAY_MS - y * DAY_MS > DAY_MS \<longleftrightarrow> p - y > 1"
  by (simp add: DAY_MS_def) arith

text \<open>
  The walk of the code over day-aligned times, latest first and with repetitions,
  is the specification's walk over the days without repetitions: a repeated day
  has difference 0, which changes neither the streak nor (as the streak never
  exceeds the best) the best streak.
\<close>

lemma walk_refines:
  "sorted_wrt (\<ge>) (pd # ys) \<Longrightarrow> s \<le> b \<Longrightarrow>
   (case fold streak_step (map (\<lambda>d. d * DAY_MS) ys) (s, b, Some (pd * DAY_MS)) of
      (s', b', p') \<Rightarrow> (s', b'))
     = spec_streak_walk (Some pd) s b (tl (remdups_adj (pd # ys)))"
proof (induction ys arbitrary: pd s b)
  case Nil
  then show ?case by simp
next
  case (Cons y ys)
  from Cons.prems have le: "y \<le> pd" and sorted': "sorted_wrt (\<ge>) (y # ys)"
    by auto
  show ?case
  proof (cases "y = pd")
    case True
    with Cons.prems have "sorted_wrt (\<ge>) (pd # ys)"
      by auto
    from Cons.IH [OF this \<open>s \<le> b\<close>] True \<open>s \<le> b\<close> DAY_MS_pos show ?thesis
      by (simp add: max_absorb1)
  next
    case False
    with le have lt: "y < pd"
      by simp
    define s1 where "s1 = (if pd - y = 1 then s + 1 else 1)"
    define rest where "rest = tl (remdups_adj (y # ys))"
    from lt have step: "streak_step (y * DAY_MS) (s, b, Some (pd * DAY_MS))
        = (s1, max b s1, Some (y * DAY_MS))"
      by (auto simp: s1_def day_gap_one day_gap_more)
    have "s1 \<le> max b s1"
      by simp
    from Cons.IH [OF sorted' this]
    have "(case fold streak_step (map (\<lambda>d. d * DAY_MS) (y # ys)) (s, b, Some (pd * DAY_MS)) of
             (s', b', p') \<Rightarrow> (s', b'))
          = spec_streak_walk (Some y) s1 (max b s1) rest"
      by (simp add: step rest_def del: streak_step.simps)
    moreover from False have "tl (remdups_adj (pd # y # ys)) = y # rest"
      by (simp add: rest_def)
    moreover have "spec_streak_walk (Some pd) s b (y # rest)
          = spec_streak_walk (Some y) s1 (max b s1) rest"
      by (simp add: s1_def)
    ultimately show ?thesis
      by simp
  qed
qed

lemma walk_from_start:
  assumes "sorted_wrt (\<ge>) ys"
  shows "(case fold streak_step (map (\<lambda>d. d * DAY_MS) ys) (0, 0, None) of
            (s', b', p') \<Rightarrow> (s', b'))
         = spec_streak_walk None 0 0 (remdups_adj ys)"
proof (cases ys)
  case Nil
  then show ?thesis by simp
next
  case (Cons y ys')
  have "spec_streak_walk None 0 0 (remdups_adj (y # ys'))
        = spec_streak_walk None 0 0 (y # tl (remdups_adj (y # ys')))"
    by simp
  also have "\<dots> = spec_streak_walk (Some y) 1 1 (tl (remdups_adj (y # ys')))"
    by (simp del: remdups_adj_Cons_alt)
  finally show ?thesis
    using walk_refines [of y ys' 1 1] assms Cons by simp
qed

text \<open>
  A descending list without adjacent repetitions is the descending sort of its
  de-duplicated elements.
\<close>

lemma distinct_remdups_adj_sorted: "sorted xs \<Longrightarrow> distinct (remdups_adj xs)"
  by (induction xs rule: remdups_adj.induct) auto

lemma descending_remdups_adj:
  fixes ys :: "int list"
  assumes "sorted_wrt (\<ge>) ys" and "set ys = set zs"
  shows "remdups_adj ys = rev (sort (remdups zs))"
proof -
  from assms(1) have asc: "sorted (rev ys)"
    by (simp add: sorted_wrt_rev)
  have "remdups_adj (rev ys) = sort (remdups zs)"
  proof (rule sorted_distinct_set_unique)
    show "sorted (remdups_adj (rev ys))"
      using asc by (rule sorted_remdups_adj)
    show "distinct (remdups_adj (rev ys))"
      using asc by (rule distinct_remdups_adj_sorted)
    show "set (remdups_adj (rev ys)) = set (sort (remdups zs))"
      using assms(2) by simp
  qed simp_all
  then have "rev (remdups_adj ys) = sort (remdups zs)"
    by simp
  then show ?thesis
    by (metis rev_rev_ident)
qed

lemma sortedDates_valid_times:
  "sortedDates parse keys = sort_key uminus (valid_times parse keys)"
  by (simp add: sortedDates_def valid_times_def)

lemma sortedDates_descending: "sorted_wrt (\<ge>) (sortedDates parse keys)"
proof -
  have "sorted (map uminus (sortedDates parse keys))"
    unfolding sortedDates_def by (rule sorted_sort_key)
  then show ?thesis
    by (simp add: sorted_map)
qed

lemma streak_walk_refines_spec:
  assumes aligned: "\<forall>t \<in> set (valid_times parse keys). DAY_MS dvd t"
  shows "(case fold streak_step (sortedDates parse keys) (0, 0, None) of
            (s', b', p') \<Rightarrow> (s', b'))
         = spec_streak_walk None 0 0 (rev (sort (remdups (calendar_days parse keys))))"
proof -
  let ?xs = "sortedDates parse keys"
  let ?ys = "map (\<lambda>t. t div DAY_MS) ?xs"
  from aligned have "\<forall>t \<in> set ?xs. DAY_MS dvd t"
    by (simp add: sortedDates_valid_times)
  then have scaled: "map (\<lambda>d. d * DAY_MS) ?ys = ?xs"
    by (simp add: map_idI)
  have "sorted_wrt (\<ge>) ?ys"
    using sortedDates_descending [of parse keys] DAY_MS_pos
    by (simp add: sorted_wrt_map) (erule sorted_wrt_mono_rel [rotated], simp add: zdiv_mono1)
  moreover have "set ?ys = set (calendar_days parse keys)"
    by (simp add: calendar_days_def sortedDates_valid_times)
  ultimately have "remdups_adj ?ys = rev (sort (remdups (calendar_days parse keys)))"
    by (rule descending_remdups_adj)
  with walk_from_start [OF \<open>sorted_wrt (\<ge>) ?ys\<close>] scaled show ?thesis
    by simp
qed


lemma updates_streak_spec:
  assumes "\<forall>t \<in> set (valid_times (dateParse env) (completed_keys rs)). DAY_MS dvd t"
  shows "(upd_streakDays (compute_updates env ms rs), upd_bestStreakDays (compute_updates env ms rs))
         = spec_streaks (calendar_days (dateParse env) (completed_keys rs))
             (currentDateKey env \<in> set (completed_keys rs))"
proof -
  obtain s b p where walk:
    "fold streak_step (sortedDates (dateParse env) (completed_keys rs)) (0, 0, None) = (s, b, p)"
    by (cases "fold streak_step (sortedDates (dateParse env) (completed_keys rs)) (0, 0, None)")
  with streak_walk_refines_spec [OF assms]
  have "spec_streak_walk None 0 0 (rev (sort (remdups (calendar_days (dateParse env) (completed_keys rs)))))
        = (s, b)"
    by simp
  with compute_updates_streaks [OF walk, of ms] show ?thesis
    by (simp add: spec_streaks_def)
qed

lemma updates_streak_no_today:
  "currentDateKey env \<notin> set (completed_keys rs) \<Longrightarrow> upd_streakDays (compute_updates env ms rs) = 0"
  by (cases "fold streak_step (sortedDates (dateParse env) (completed_keys rs)) (0, 0, None)")
    (simp add: compute_updates_streaks)

lemma set_valid_times:
  "set (valid_times parse keys) = {t. \<exists>k \<in> set keys. parse k = Some t}"
  by (force simp: valid_times_def image_iff)

lemma descending_days_unique:
  fixes days :: "int list"
  assumes "set days = set expected" and "sorted_wrt (>) expected"
  shows "rev (sort (remdups days)) = expected"
proof -
  from assms(2) have "sorted_wrt (<) (rev expected)"
    by (simp add: sorted_wrt_rev)
  then have "sorted (rev expected)" and "distinct (rev expected)"
    by (simp_all add: strict_sorted_iff)
  moreover have "set (sort (remdups days)) = set (rev expected)"
    using assms(1) by simp
  ultimately have "sort (remdups days) = rev expected"
    by (intro sorted_distinct_set_unique) simp_all
  then show ?thesis
    by simp
qed

text \<open>
  The streaks of a set of date keys that parse to the days of a strictly
  descending list.
\<close>

lemma streak_of_days:
  assumes keys: "set (completed_keys rs) = set ks"
    and parse: "map (dateParse env) ks = map (\<lambda>day. Some (day * DAY_MS)) expected"
    and desc: "sorted_wrt (>) expected"
  shows "(upd_streakDays (compute_updates env ms rs), upd_bestStreakDays (compute_updates env ms rs))
         = (case spec_streak_walk None 0 0 expected of
              (streak, best) \<Rightarrow> (if currentDateKey env \<in> set ks then streak else 0, best))"
proof -
  have "set (valid_times (dateParse env) (completed_keys rs))
        = {t. \<exists>k \<in> set ks. dateParse env k = Some t}"
    by (simp add: set_valid_times keys)
  also have "\<dots> = {t. Some t \<in> set (map (dateParse env) ks)}"
    by (auto simp: image_iff) metis
  also have "\<dots> = (\<lambda>day. day * DAY_MS) ` set expected"
    unfolding parse by auto
  finally have times: "set (valid_times (dateParse env) (completed_keys rs))
        = (\<lambda>day. day * DAY_MS) ` set expected" .
  then have aligned: "\<forall>t \<in> set (valid_times (dateParse env) (completed_keys rs)). DAY_MS dvd t"
    by auto
  from times DAY_MS_pos have "set (calendar_days (dateParse env) (completed_keys rs)) = set expected"
    by (simp add: calendar_days_def image_image)
  then have "rev (sort (remdups (calendar_days (dateParse env) (completed_keys rs)))) = expected"
    using desc by (rule descending_days_unique)
  with updates_streak_spec [OF aligned, of ms] keys show ?thesis
    by (simp add: spec_streaks_def)
qed

text \<open>
  The walk goes from the latest date to the earliest, so the streak it ends with
  is the run of consecutive days that ends at the earliest date: with Monday,
  Tuesday and Thursday completed and today Thursday, \<open>streakDays\<close> is 2.
\<close>

lemma streak_is_earliest_run:
  assumes "set (completed_keys rs) = {mon, tue, thu}"
    and "dateParse env mon = Some (m * DAY_MS)" and "dateParse env tue = Some ((m + 1) * DAY_MS)"
    and "dateParse env thu = Some ((m + 3) * DAY_MS)" and "currentDateKey env = thu"
  shows "upd_streakDays (compute_updates env ms rs) = 2"
proof -
  from assms(1) have "set (completed_keys rs) = set [thu, tue, mon]"
    by auto
  from streak_of_days [OF this, of env "[m + 3, m + 1, m]" ms] assms(2-5) show ?thesis
    by simp
qed

text \<open>
  C6: \<open>reconcileStatsFromData\<close> computes the streak as the specification words it.
  When every completed date key that parses is the midnight of a calendar day,
  \<open>streakDays\<close> and \<open>bestStreakDays\<close> are the result of sorting the completed
  days descending and walking them, extending the streak on a gap of exactly one
  day, restarting it at 1 on a larger gap and tracking the maximum, with
  \<open>streakDays\<close> forced to 0 when today's key is not among the completed keys;
  that last rule holds for all keys. With Monday, Tuesday and Wednesday three
  consecutive days and today Wednesday: the dates (Mon, Tue, Wed) give
  \<open>streakDays = 3\<close>, (Mon, Wed) give 1 and (Mon, Tue) give 0.
\<close>

theorem reconcile_streak_refines_spec:
  assumes "u = fst (reconcileStatsFromData env uid d)"
    and "keys = completed_keys (daily_reflections d uid)"
  shows "((\<forall>t \<in> set (valid_times (dateParse env) keys). DAY_MS dvd t) \<longrightarrow>
            (upd_streakDays u, upd_bestStreakDays u)
              = spec_streaks (calendar_days (dateParse env) keys) (currentDateKey env \<in> set keys)) \<and>
         (currentDateKey env \<notin> set keys \<longrightarrow> upd_streakDays u = 0) \<and>
         (dateParse env mon = Some (m * DAY_MS) \<and> dateParse env tue = Some ((m + 1) * DAY_MS) \<and>
          dateParse env wed = Some ((m + 2) * DAY_MS) \<and> currentDateKey env = wed \<longrightarrow>
            (set keys = {mon, tue, wed} \<longrightarrow> upd_streakDays u = 3) \<and>
            (set keys = {mon, wed} \<longrightarrow> upd_streakDays u = 1) \<and>
            (set keys = {mon, tue} \<longrightarrow> upd_streakDays u = 0))"
proof -
  let ?ms = "moments d uid" and ?rs = "daily_reflections d uid"
  have u: "u = compute_updates env ?ms ?rs"
    by (simp add: assms(1) reconcile_updates)
  have general: "(upd_streakDays u, upd_bestStreakDays u)
      = spec_streaks (calendar_days (dateParse env) keys) (currentDateKey env \<in> set keys)"
    if "\<forall>t \<in> set (valid_times (dateParse env) keys). DAY_MS dvd t"
    using that updates_streak_spec [of env ?rs ?ms] by (simp add: u assms(2))
  have no_today: "upd_streakDays u = 0" if "currentDateKey env \<notin> set keys"
    using that updates_streak_no_today [of env ?rs ?ms] by (simp add: u assms(2))
  have examples: "(set keys = {mon, tue, wed} \<longrightarrow> upd_streakDays u = 3) \<and>
      (set keys = {mon, wed} \<longrightarrow> upd_streakDays u = 1) \<and>
      (set keys = {mon, tue} \<longrightarrow> upd_streakDays u = 0)"
    if parse: "dateParse env mon = Some (m * DAY_MS)" "dateParse env tue = Some ((m + 1) * DAY_MS)"
      "dateParse env wed = Some ((m + 2) * DAY_MS)" and today: "currentDateKey env = wed"
  proof (intro conjI impI)
    assume "set keys = {mon, tue, wed}"
    then have "set (completed_keys ?rs) = set [wed, tue, mon]"
      by (auto simp: assms(2))
    from streak_of_days [OF this, of env "[m + 2, m + 1, m]" ?ms] parse today
    show "upd_streakDays u = 3"
      by (simp add: u)
  next
    assume "set keys = {mon, wed}"
    then have "set (completed_keys ?rs) = set [wed, mon]"
      by (auto simp: assms(2))
    from streak_of_days [OF this, of env "[m + 2, m]" ?ms] parse today
    show "upd_streakDays u = 1"
      by (simp add: u)
  next
    assume "set keys = {mon, tue}"
    then have "set (completed_keys ?rs) = set [tue, mon]"
      by (auto simp: assms(2))
    moreover from parse DAY_MS_pos have "wed \<noteq> mon" "wed \<noteq> tue"
      by auto
    ultimately show "upd_streakDays u = 0"
      using streak_of_days [of ?rs "[tue, mon]" env "[m + 1, m]" ?ms] parse today
      by (simp add: u)
  qed
  from general no_today examples show ?thesis
    by blast
qed


theorem reconcile_streak_refines_spec_witness:
  "upd_streakDays (fst (reconcileStatsFromData (example_env ''2024-01-10'') ''u1''
     (example_db [''2024-01-08'', ''2024-01-09'', ''2024-01-10'']))) = 3 \<and>
   upd_streakDays (fst (reconcileStatsFromData (example_env ''2024-01-10'') ''u1''
     (example_db [''2024-01-08'', ''2024-01-10'']))) = 1 \<and>
   upd_streakDays (fst (reconcileStatsFromData (example_env ''2024-01-10'') ''u1''
     (example_db [''2024-01-08'', ''2024-01-09'']))) = 0 \<and>
   (upd_streakDays (fst (reconcileStatsFromData (example_env ''2024-01-10'') ''u1''
      (example_db [''2024-01-08'', ''2024-01-09'', ''2024-01-10'']))),
    upd_bestStreakDays (fst (reconcileStatsFromData (example_env ''2024-01-10'') ''u1''
      (example_db [''2024-01-08'', ''2024-01-09'', ''2024-01-10'']))))
     = spec_streaks [19730, 19731, 19732] True"
proof -
  let ?env = "example_env ''2024-01-10''"
  let ?mon = "''2024-01-08''" and ?tue = "''2024-01-09''" and ?wed = "''2024-01-10''"
  have keys: "completed_keys (daily_reflections (example_db ks) ''u1'') = ks"
    if "\<forall>k \<in> set ks. k \<noteq> []" for ks
    using that
    by (simp add: completed_keys_def example_db_def completed_on_def reflection_dateKey_def
        comp_def filter_map map_idI)
  have parse: "dateParse ?env ?mon = Some (19730 * DAY_MS)"
    "dateParse ?env ?tue = Some ((19730 + 1) * DAY_MS)"
    "dateParse ?env ?wed = Some ((19730 + 2) * DAY_MS)"
    "currentDateKey ?env = ?wed"
    by (simp_all add: example_env_def example_dateParse_def DAY_MS_def)
  note inst = reconcile_streak_refines_spec [OF refl refl, where env = ?env and uid = "''u1''"
      and mon = ?mon and tue = ?tue and wed = ?wed and m = 19730]
  have three: "upd_streakDays (fst (reconcileStatsFromData ?env ''u1'' (example_db [?mon, ?tue, ?wed]))) = 3"
    using inst [where d = "example_db [?mon, ?tue, ?wed]"] parse by (simp add: keys)
  have gap: "upd_streakDays (fst (reconcileStatsFromData ?env ''u1'' (example_db [?mon, ?wed]))) = 1"
    using inst [where d = "example_db [?mon, ?wed]"] parse by (simp add: keys)
  have none_today: "upd_streakDays (fst (reconcileStatsFromData ?env ''u1'' (example_db [?mon, ?tue]))) = 0"
    using inst [where d = "example_db [?mon, ?tue]"] parse by (simp add: keys)
  have "valid_times (dateParse ?env) [?mon, ?tue, ?wed] = [19730 * DAY_MS, 19731 * DAY_MS, 19732 * DAY_MS]"
    by (simp add: valid_times_def example_env_def example_dateParse_def DAY_MS_def)
  then have "(upd_streakDays (fst (reconcileStatsFromData ?env ''u1'' (example_db [?mon, ?tue, ?wed]))),
      upd_bestStreakDays (fst (reconcileStatsFromData ?env ''u1'' (example_db [?mon, ?tue, ?wed]))))
      = spec_streaks [19730, 19731, 19732] True"
    using inst [where d = "example_db [?mon, ?tue, ?wed]"] DAY_MS_pos
    by (simp add: keys calendar_days_def example_env_def)
  with three gap none_today show ?thesis
    by simp
qed

subsection \<open>reconcileBadges\<close>

lemma reconcileStatsFromData_stored:
  "stats_main (snd (reconcileStatsFromData env uid d)) uid
     = Some (merge_updates (fst (reconcileStatsFromData env uid d))
         (case stats_main d uid of Some s \<Rightarrow> s | None \<Rightarrow> initial_stats (currentWeekKey env)))"
  by (simp add: reconcileStatsFromData_def ensureStatsDoc_def Let_def snapshot_data_def
      split: option.splits)

lemma badges_set_badge:
  "badges (set_badge uid bid r d) uid k = (if k = bid then Some r else badges d uid k)"
  by (simp add: set_badge_def)

lemma fold_set_badge_other:
  "k \<notin> badge_id ` set defs \<Longrightarrow>
   badges (fold (\<lambda>def. set_badge uid (badge_id def) (w def)) defs d) uid k = badges d uid k"
  by (induction defs arbitrary: d) (auto simp: badges_set_badge)

lemma fold_set_badge_written:
  "distinct (map badge_id defs) \<Longrightarrow> def \<in> set defs \<Longrightarrow>
   badges (fold (\<lambda>def. set_badge uid (badge_id def) (w def)) defs d) uid (badge_id def)
     = Some (w def)"
proof (induction defs arbitrary: d)
  case Nil
  then show ?case by simp
next
  case (Cons a defs)
  show ?case
  proof (cases "def \<in> set defs")
    case True
    with Cons show ?thesis by simp
  next
    case False
    with Cons.prems have "def = a" and "badge_id a \<notin> badge_id ` set defs"
      by auto
    then show ?thesis
      by (simp add: fold_set_badge_other badges_set_badge)
  qed
qed

lemma distinct_badge_ids: "distinct (map badge_id BADGE_DEFINITIONS)"
  by (simp add: BADGE_DEFINITIONS_def)

lemma reconcileBadges_writes:
  assumes "stats_main d uid = Some st" and "def \<in> set BADGE_DEFINITIONS"
  shows "badges (reconcileBadges env uid d) uid (badge_id def)
         = Some (badge_write env st (length (reflectionsDays (daily_reflections d uid)))
             (fst (fold badge_moment_step (moments d uid) (0, [])))
             (snd (fold badge_moment_step (moments d uid) (0, []))) def)"
  using assms(1) fold_set_badge_written [OF distinct_badge_ids assms(2)]
  by (simp add: reconcileBadges_def Let_def)

lemma fold_set_badge_frame:
  "stats_main (fold (\<lambda>def. set_badge uid (badge_id def) (w def)) defs d) = stats_main d"
  "daily_reflections (fold (\<lambda>def. set_badge uid (badge_id def) (w def)) defs d) = daily_reflections d"
  "moments (fold (\<lambda>def. set_badge uid (badge_id def) (w def)) defs d) = moments d"
  by (induction defs arbitrary: d) (simp_all add: set_badge_def)

lemma reconcileBadges_frame:
  "stats_main (reconcileBadges env uid d) = stats_main d"
  "daily_reflections (reconcileBadges env uid d) = daily_reflections d"
  "moments (reconcileBadges env uid d) = moments d"
  by (simp_all add: reconcileBadges_def Let_def fold_set_badge_frame split: option.splits)

text \<open>
  For a streak badge the written \<open>earned\<close> flag is recomputed from the current
  \<open>streakDays\<close> alone; the stored record is not read.
\<close>

lemma reconcileBadges_earned_is_recomputed:
  assumes "stats_main d uid = Some st" and "def \<in> set BADGE_DEFINITIONS"
    and "criteriaType def = streak_days"
  shows "map_option earned (badges (reconcileBadges env uid d) uid (badge_id def))
         = Some (or_zero (streakDays st) \<ge> threshold def \<and> threshold def > 0)"
  using reconcileBadges_writes [OF assms(1,2)] assms(3)
  by (simp add: badge_write_def Let_def)

text \<open>
  C7 asks that \<open>earned\<close>, once true, is never set back to false by a later
  \<open>reconcileBadges\<close>. The code does set it back. User \<^verbatim>\<open>u1\<close> has completed the
  reflections of Monday 8, Tuesday 9 and Wednesday 10 January 2024. On Wednesday
  the application runs \<open>reconcileStatsFromData\<close> and then \<open>reconcileBadges\<close>: the
  streak is 3 and the badge \<^verbatim>\<open>streak_starter\<close> is earned. On Thursday, before any
  reflection of that day, the same two calls run again: the streak is forced to 0
  and the badge is written with \<open>earned = False\<close>.
\<close>

theorem reconcileBadges_loses_earned_badge:
  "map_option earned
     (badges (reconcileBadges (example_env ''2024-01-10'') ''u1''
        (snd (reconcileStatsFromData (example_env ''2024-01-10'') ''u1''
           (example_db [''2024-01-08'', ''2024-01-09'', ''2024-01-10'']))))
        ''u1'' ''streak_starter'') = Some True \<and>
   map_option earned
     (badges (reconcileBadges (example_env ''2024-01-11'') ''u1''
        (snd (reconcileStatsFromData (example_env ''2024-01-11'') ''u1''
           (reconcileBadges (example_env ''2024-01-10'') ''u1''
              (snd (reconcileStatsFromData (example_env ''2024-01-10'') ''u1''
                 (example_db [''2024-01-08'', ''2024-01-09'', ''2024-01-10''])))))))
        ''u1'' ''streak_starter'') = Some False"
proof -
  let ?wed = "example_env ''2024-01-10''" and ?thu = "example_env ''2024-01-11''"
  let ?d0 = "example_db [''2024-01-08'', ''2024-01-09'', ''2024-01-10'']"
  let ?d1 = "snd (reconcileStatsFromData ?wed ''u1'' ?d0)"
  let ?d2 = "reconcileBadges ?wed ''u1'' ?d1"
  let ?d3 = "snd (reconcileStatsFromData ?thu ''u1'' ?d2)"
  let ?starter = "\<lparr> badge_id = ''streak_starter'', category = consistency,
       criteriaType = streak_days, threshold = 3, emotionType = None, xpReward = 30 \<rparr>"
  have starter: "?starter \<in> set BADGE_DEFINITIONS"
    by (simp add: BADGE_DEFINITIONS_def)
  have keys: "completed_keys (daily_reflections ?d0 ''u1'') = [''2024-01-08'', ''2024-01-09'', ''2024-01-10'']"
    by (simp add: completed_keys_def example_db_def completed_on_def reflection_dateKey_def)
  have walk: "fold streak_step (sortedDates example_dateParse [''2024-01-08'', ''2024-01-09'', ''2024-01-10''])
      (0, 0, None) = (3, 3, Some 1704672000000)"
    by (simp add: sortedDates_def example_dateParse_def DAY_MS_def)
  have refl2: "daily_reflections ?d2 = daily_reflections ?d0" and mom2: "moments ?d2 = moments ?d0"
    by (simp_all add: reconcileBadges_frame reconcileStatsFromData_def ensureStatsDoc_def Let_def
        split: option.splits)
  obtain st1 where st1: "stats_main ?d1 ''u1'' = Some st1"
      and "streakDays st1 = Some (upd_streakDays (fst (reconcileStatsFromData ?wed ''u1'' ?d0)))"
    by (simp add: reconcileStatsFromData_stored merge_updates_def)
  moreover have "upd_streakDays (fst (reconcileStatsFromData ?wed ''u1'' ?d0)) = 3"
    using compute_updates_streaks [of ?wed "daily_reflections ?d0 ''u1''" 3 3 "Some 1704672000000"
        "moments ?d0 ''u1''"] walk
    by (simp add: reconcile_updates keys example_env_def)
  ultimately have streak1: "streakDays st1 = Some 3"
    by simp
  obtain st3 where st3: "stats_main ?d3 ''u1'' = Some st3"
      and "streakDays st3 = Some (upd_streakDays (fst (reconcileStatsFromData ?thu ''u1'' ?d2)))"
    by (simp add: reconcileStatsFromData_stored merge_updates_def)
  moreover have "currentDateKey ?thu \<notin> set (completed_keys (daily_reflections ?d0 ''u1''))"
    by (simp add: keys example_env_def)
  then have "upd_streakDays (fst (reconcileStatsFromData ?thu ''u1'' ?d2)) = 0"
    using updates_streak_no_today [of ?thu "daily_reflections ?d0 ''u1''" "moments ?d0 ''u1''"]
    by (simp add: reconcile_updates refl2 mom2)
  ultimately have streak3: "streakDays st3 = Some 0"
    by simp
  from reconcileBadges_earned_is_recomputed [OF st1 starter, of ?wed]
    reconcileBadges_earned_is_recomputed [OF st3 starter, of ?thu] streak1 streak3
  show ?thesis
    by (simp add: or_zero_def)
qed

end
